theory Spec2Isabelle
  imports Complex_Main
begin

section \<open>Python values and exceptions\<close>

text \<open>
  The exceptions that the modelled part of \<^verbatim>\<open>elevation.py\<close> can raise.
  \<^item> \<open>ValueError_range_step\<close>: \<^verbatim>\<open>ValueError: range() arg 3 must not be zero\<close>;
  \<^item> \<open>Length_Mismatch k n\<close>: the \<^verbatim>\<open>ValueError: Length of values (k) does not match
    length of index (n)\<close> that the docstring of \<^verbatim>\<open>get_average_elevation\<close> quotes;
  \<^item> \<open>KeyError key\<close>, \<open>TypeError\<close>, \<open>AttributeError\<close>: the builtin exceptions;
  \<^item> \<open>JSONDecodeError\<close>: \<^verbatim>\<open>resp.json()\<close> on a body that is not JSON;
  \<^item> \<open>RequestException\<close>: the HTTP call failing without a response.
\<close>

datatype error =
    ValueError_range_step
  | Length_Mismatch nat nat
  | KeyError string
  | TypeError
  | AttributeError
  | JSONDecodeError
  | RequestException

text \<open>
  A decoded JSON document, as \<^verbatim>\<open>json.loads\<close> and \<^verbatim>\<open>resp.json()\<close> return it.
  \<open>JNull\<close> is Python's \<^verbatim>\<open>None\<close>. Numbers carry their exact value. A dict is an
  association list; the first binding of a key is the effective one.
\<close>

datatype json =
    JNull
  | JBool bool
  | JNum rat
  | JStr string
  | JArr "json list"
  | JObj "(string \<times> json) list"

text \<open>\<^verbatim>\<open>d.get(key)\<close> on a dict: the value, or \<^verbatim>\<open>None\<close> when the key is absent.\<close>

definition dict_get :: "(string \<times> json) list \<Rightarrow> string \<Rightarrow> json" where
  "dict_get kvs key = (case map_of kvs key of None \<Rightarrow> JNull | Some v \<Rightarrow> v)"

text \<open>
  \<^verbatim>\<open>sep.join(parts)\<close> and \<^verbatim>\<open>s.replace(" ", "")\<close>.
\<close>

fun join :: "string \<Rightarrow> string list \<Rightarrow> string" where
  "join sep [] = []"
| "join sep [x] = x"
| "join sep (x # y # ys) = x @ sep @ join sep (y # ys)"

definition replace_space :: "string \<Rightarrow> string" where
  "replace_space s = filter (\<lambda>c. c \<noteq> CHR '' '') s"

text \<open>
  \<^verbatim>\<open>range(start, stop, step)\<close> as the list of its values. A zero step raises; the
  number of values is the one CPython computes, zero when the range is empty.
\<close>

definition py_range :: "int \<Rightarrow> int \<Rightarrow> int \<Rightarrow> error + int list" where
  "py_range start stop step =
     (if step = 0 then Inl ValueError_range_step
      else if 0 < step then
        Inr (map (\<lambda>k. start + int k * step) [0..<nat ((stop - start + step - 1) div step)])
      else
        Inr (map (\<lambda>k. start + int k * step) [0..<nat ((start - stop - step - 1) div (- step))]))"

text \<open>
  \<^verbatim>\<open>xs[i:j]\<close>: a negative bound counts from the end, and every bound is clamped to
  the list.
\<close>

definition slice_index :: "int \<Rightarrow> nat \<Rightarrow> nat" where
  "slice_index i n = (if i < 0 then nat (max 0 (int n + i)) else min (nat i) n)"

definition py_slice :: "'a list \<Rightarrow> int \<Rightarrow> int \<Rightarrow> 'a list" where
  "py_slice xs i j =
     (let a = slice_index i (length xs); b = slice_index j (length xs)
      in take (b - a) (drop a xs))"

section \<open>The Elevation object\<close>

text \<open>
  One element of \<^verbatim>\<open>self.locations\<close>. The code reads \<^verbatim>\<open>lat\<close> and \<^verbatim>\<open>lon\<close> only
  through \<^verbatim>\<open>str(item.get(...))\<close>, so the fields hold that text; \<open>z\<close> is the reference
  elevation, the column \<^verbatim>\<open>"z"\<close> of the data frame.
\<close>

record location =
  lat :: string
  lon :: string
  z :: rat

record elevation =
  locations :: "location list"
  api_key :: string
  google_url :: string

type_synonym coords = "(string \<times> string) list"

definition coords_list :: "elevation \<Rightarrow> coords" where
  "coords_list self = map (\<lambda>item. (lat item, lon item)) (locations self)"

definition coords_string :: "coords \<Rightarrow> string" where
  "coords_string coords =
     replace_space (join ''|'' (map (\<lambda>it. fst it @ '', '' @ snd it) coords))"

text \<open>
  The two generators. Their bodies run when the generator is first advanced, so the
  exception of \<^verbatim>\<open>range\<close> reaches whoever consumes them; the model returns the list of
  everything they yield. \<open>batch_size\<close> is an argument here as it is there; its defaults
  (100 and 300, or the environment's \<^verbatim>\<open>BATCH_SIZE\<close>) are fixed when the class is
  defined, and \<^verbatim>\<open>make_coords_strings_list\<close> consumes \<^verbatim>\<open>batch_coords_to_str\<close> with
  its default, which the model passes on. The decorator \<^verbatim>\<open>timing\<close> prints a duration
  and hands the result through; it is left out.
\<close>

definition create_batch_for_polyline :: "elevation \<Rightarrow> int \<Rightarrow> error + coords list" where
  "create_batch_for_polyline self batch_size =
     (let coords = coords_list self; ln = int (length coords)
      in case py_range 0 ln batch_size of
           Inl e \<Rightarrow> Inl e
         | Inr ndxs \<Rightarrow>
             Inr (map (\<lambda>ndx. py_slice coords ndx (min (ndx + batch_size) ln)) ndxs))"

definition batch_coords_to_str :: "elevation \<Rightarrow> int \<Rightarrow> error + string list" where
  "batch_coords_to_str self batch_size =
     (let coords = coords_list self; ln = int (length coords)
      in case py_range 0 ln batch_size of
           Inl e \<Rightarrow> Inl e
         | Inr ndxs \<Rightarrow>
             Inr (map (\<lambda>ndx. coords_string (py_slice coords ndx (min (ndx + batch_size) ln)))
                    ndxs))"

definition make_coords_strings_list :: "elevation \<Rightarrow> int \<Rightarrow> error + string list" where
  "make_coords_strings_list self batch_size = batch_coords_to_str self batch_size"

section \<open>Requests and responses\<close>

text \<open>
  What \<^verbatim>\<open>requests.get\<close> hands back: the status code and the result of
  \<^verbatim>\<open>resp.json()\<close>, \<open>None\<close> when the body does not decode.
\<close>

record response =
  status_code :: int
  json_body :: "json option"

text \<open>
  The remote service is a parameter: given a URI and the state of the world it answers
  (or the call raises) and leaves a new state. The model threads that state together
  with the list of the URIs requested so far, oldest first.
\<close>

type_synonym 'w http = "string \<Rightarrow> 'w \<Rightarrow> (error + response) \<times> 'w"

type_synonym 'w net = "'w \<times> string list"

definition make_request ::
  "elevation \<Rightarrow> 'w http \<Rightarrow> string \<Rightarrow> 'w net \<Rightarrow> (error + response) \<times> 'w net" where
  "make_request self http coords_str st =
     (let uri = google_url self @ coords_str @ ''&key='' @ api_key self
      in case http uri (fst st) of (r, w') \<Rightarrow> (r, (w', snd st @ [uri])))"

definition generate_urls :: "elevation \<Rightarrow> int \<Rightarrow> error + string list" where
  "generate_urls self batch_size =
     (case make_coords_strings_list self batch_size of
        Inl e \<Rightarrow> Inl e
      | Inr c_strs \<Rightarrow>
          Inr (map (\<lambda>coords_str. google_url self @ coords_str @ ''&key='' @ api_key self)
                 c_strs))"

text \<open>
  \<^verbatim>\<open>[item.get("elevation") for item in resp_res["results"]]\<close>. Only a dict can be
  indexed by a string and only a dict has \<^verbatim>\<open>get\<close>. Iterating a dict yields its
  keys and iterating a string its characters, all of them strings.
\<close>

fun elevation_items :: "json list \<Rightarrow> error + json list" where
  "elevation_items [] = Inr []"
| "elevation_items (JObj kvs # items) =
     (case elevation_items items of
        Inl e \<Rightarrow> Inl e
      | Inr es \<Rightarrow> Inr (dict_get kvs ''elevation'' # es))"
| "elevation_items (_ # items) = Inl AttributeError"

fun get_elevation_from_request :: "json \<Rightarrow> error + json list" where
  "get_elevation_from_request (JObj kvs) =
     (case map_of kvs ''results'' of
        None \<Rightarrow> Inl (KeyError ''results'')
      | Some (JArr items) \<Rightarrow> elevation_items items
      | Some (JObj d) \<Rightarrow> (if d = [] then Inr [] else Inl AttributeError)
      | Some (JStr s) \<Rightarrow> (if s = [] then Inr [] else Inl AttributeError)
      | Some _ \<Rightarrow> Inl TypeError)"
| "get_elevation_from_request _ = Inl TypeError"

section \<open>Sequential fetching\<close>

text \<open>
  The loop of \<^verbatim>\<open>get_google_data\<close> over the coordinate strings, with the elevation list
  it has built so far: one request after the other; a response of status 200 is decoded
  and its elevations are appended, a response of any other status is passed over, and an
  exception ends the run.
\<close>

fun get_google_data_loop ::
  "elevation \<Rightarrow> 'w http \<Rightarrow> string list \<Rightarrow> json list \<Rightarrow> 'w net
     \<Rightarrow> (error + json list) \<times> 'w net" where
  "get_google_data_loop self http [] elevation_list st = (Inr elevation_list, st)"
| "get_google_data_loop self http (item # c_strs) elevation_list st =
     (case make_request self http item st of
        (Inl e, st') \<Rightarrow> (Inl e, st')
      | (Inr resp, st') \<Rightarrow>
          if status_code resp = 200 then
            (case json_body resp of
               None \<Rightarrow> (Inl JSONDecodeError, st')
             | Some payload \<Rightarrow>
                 (case get_elevation_from_request payload of
                    Inl e \<Rightarrow> (Inl e, st')
                  | Inr es \<Rightarrow> get_google_data_loop self http c_strs (elevation_list @ es) st'))
          else get_google_data_loop self http c_strs elevation_list st')"

definition get_google_data ::
  "elevation \<Rightarrow> 'w http \<Rightarrow> int \<Rightarrow> 'w net \<Rightarrow> (error + json list) \<times> 'w net" where
  "get_google_data self http batch_size st =
     (case make_coords_strings_list self batch_size of
        Inl e \<Rightarrow> (Inl e, st)
      | Inr c_strs \<Rightarrow> get_google_data_loop self http c_strs [] st)"

section \<open>Concurrent fetching\<close>

text \<open>
  One entry of the list that \<^verbatim>\<open>asyncio.gather(*tasks, return_exceptions=True)\<close>
  returns: the value \<^verbatim>\<open>make_async_request\<close> returned (the decoded body, or
  \<^verbatim>\<open>None\<close> when the status is not 200), or the exception it raised. The
  concurrent run itself, \<^verbatim>\<open>asyncio.run(self.fetch_data(urls))\<close>, is a parameter.
\<close>

datatype gathered = Returned json | Raised error

type_synonym 'w fetch = "string list \<Rightarrow> 'w net \<Rightarrow> gathered list \<times> 'w net"

text \<open>
  The loop of \<^verbatim>\<open>get_google_data_async\<close> hands every gathered item to
  \<^verbatim>\<open>get_elevation_from_request\<close>; an exception object cannot be indexed any more than
  \<^verbatim>\<open>None\<close> can.
\<close>

fun get_google_data_async_loop :: "gathered list \<Rightarrow> json list \<Rightarrow> error + json list" where
  "get_google_data_async_loop [] elevations = Inr elevations"
| "get_google_data_async_loop (Raised ex # responses) elevations = Inl TypeError"
| "get_google_data_async_loop (Returned item # responses) elevations =
     (case get_elevation_from_request item of
        Inl e \<Rightarrow> Inl e
      | Inr es \<Rightarrow> get_google_data_async_loop responses (elevations @ es))"

definition get_google_data_async ::
  "elevation \<Rightarrow> 'w fetch \<Rightarrow> int \<Rightarrow> 'w net \<Rightarrow> (error + json list) \<times> 'w net" where
  "get_google_data_async self fetch_data batch_size st =
     (case generate_urls self batch_size of
        Inl e \<Rightarrow> (Inl e, st)
      | Inr urls \<Rightarrow>
          (case fetch_data urls st of
             (responses, st') \<Rightarrow> (get_google_data_async_loop responses [], st')))"

section \<open>The average\<close>

text \<open>
  A float64 value; a finite one stands by its exact value.
\<close>

datatype float64 = Finite rat | NaN | PosInf | NegInf

text \<open>
  Line 242 is computed by the data frame library, in float64 and with a summation order
  of its own. The library is a parameter: \<open>series_mean\<close> is \<^verbatim>\<open>Series.mean()\<close> of a
  column built from the given cells, which may raise, and \<open>float_minus\<close> the
  subtraction of two float64 values.
\<close>

record frame_lib =
  series_mean :: "json list \<Rightarrow> error + float64"
  float_minus :: "float64 \<Rightarrow> float64 \<Rightarrow> float64"

text \<open>
  The frame has one row per location. Assigning a list to the column
  \<^verbatim>\<open>"elevation"\<close> of a frame that has rows raises unless the list has as many
  entries as the frame has rows; a frame built from no locations has no rows and no
  columns, accepts any list, and has no column \<^verbatim>\<open>"z"\<close> to read. The mean of the
  column \<^verbatim>\<open>"z"\<close> is taken first.
\<close>

definition get_average_elevation ::
  "elevation \<Rightarrow> frame_lib \<Rightarrow> 'w http \<Rightarrow> 'w fetch \<Rightarrow> int \<Rightarrow> bool \<Rightarrow> 'w net
     \<Rightarrow> (error + float64) \<times> 'w net" where
  "get_average_elevation self lib http fetch_data batch_size asynchronous st =
     (case (if \<not> asynchronous then get_google_data self http batch_size st
            else get_google_data_async self fetch_data batch_size st) of
        (Inl e, st') \<Rightarrow> (Inl e, st')
      | (Inr elevation_col, st') \<Rightarrow>
          (let income_data = locations self in
           if income_data = [] then (Inl (KeyError ''z''), st')
           else if length elevation_col \<noteq> length income_data then
             (Inl (Length_Mismatch (length elevation_col) (length income_data)), st')
           else
             (case series_mean lib (map (\<lambda>item. JNum (z item)) income_data) of
                Inl e \<Rightarrow> (Inl e, st')
              | Inr mean_z \<Rightarrow>
                  (case series_mean lib elevation_col of
                     Inl e \<Rightarrow> (Inl e, st')
                   | Inr mean_elevation \<Rightarrow>
                       (Inr (float_minus lib mean_z mean_elevation), st')))))"

section \<open>Notions used in the statements\<close>

text \<open>
  A character is a code point below 256. \<open>whitespace\<close> holds for the ones for which
  \<^verbatim>\<open>str.isspace\<close> does: the controls 9 to 13 and 28 to 31, the space, U+0085 and
  U+00A0. \<open>split_on\<close> is \<^verbatim>\<open>s.split(sep)\<close> for a separator of one character.
\<close>

definition whitespace :: "char \<Rightarrow> bool" where
  "whitespace c \<longleftrightarrow>
     c \<in> set [CHR 0x09, CHR 0x0A, CHR 0x0B, CHR 0x0C, CHR 0x0D,
              CHR 0x1C, CHR 0x1D, CHR 0x1E, CHR 0x1F, CHR '' '', CHR 0x85, CHR 0xA0]"

fun split_on :: "char \<Rightarrow> string \<Rightarrow> string list" where
  "split_on sep [] = [[]]"
| "split_on sep (c # cs) =
     (if c = sep then [] # split_on sep cs
      else case split_on sep cs of
             [] \<Rightarrow> [[c]]
           | g # gs \<Rightarrow> (c # g) # gs)"

text \<open>
  The text \<^verbatim>\<open>str\<close> gives for a number of a decoded JSON document, an int or a float,
  is not empty and made of digits, signs, the point, the \<^verbatim>\<open>e\<close> of the exponent and the
  letters of \<^verbatim>\<open>inf\<close> and \<^verbatim>\<open>nan\<close>. A coordinate text is plain when it has no
  \<^verbatim>\<open>|\<close> and no whitespace but spaces.
\<close>

definition number_text :: "string \<Rightarrow> bool" where
  "number_text s \<longleftrightarrow> s \<noteq> [] \<and> list_all (\<lambda>c. c \<in> set ''0123456789+-.einfa'') s"

definition plain :: "string \<Rightarrow> bool" where
  "plain s = list_all (\<lambda>c. c \<noteq> CHR ''|'' \<and> (c = CHR '' '' \<or> \<not> whitespace c)) s"

text \<open>One group of the rendered string: a point's \<^verbatim>\<open>"{lat}, {lon}"\<close> without spaces.\<close>

definition point_group :: "string \<times> string \<Rightarrow> string" where
  "point_group it = replace_space (fst it) @ '','' @ replace_space (snd it)"

text \<open>The field \<^verbatim>\<open>"elevation"\<close> of an object, \<^verbatim>\<open>None\<close> when it has none.\<close>

fun is_object :: "json \<Rightarrow> bool" where
  "is_object (JObj kvs) = True"
| "is_object _ = False"

fun elevation_field :: "json \<Rightarrow> json" where
  "elevation_field (JObj kvs) = dict_get kvs ''elevation''"
| "elevation_field _ = JNull"

text \<open>
  The replies that a list of URIs gets when they are requested one after the other
  from the world \<open>w\<close>, each in the state the previous one left, and the world after the
  last of them.
\<close>

fun replies :: "'w http \<Rightarrow> string list \<Rightarrow> 'w \<Rightarrow> (error + response) list" where
  "replies http [] w = []"
| "replies http (uri # uris) w = fst (http uri w) # replies http uris (snd (http uri w))"

fun world_after :: "'w http \<Rightarrow> string list \<Rightarrow> 'w \<Rightarrow> 'w" where
  "world_after http [] w = w"
| "world_after http (uri # uris) w = world_after http uris (snd (http uri w))"

text \<open>
  A reply is answered when the call returned a response, and succeeded when that
  response has status 200. \<open>extracted\<close> is what the fetcher gets out of a reply, and
  \<open>elevations_of\<close> the elevation array when there is one.
\<close>

definition answered :: "error + response \<Rightarrow> bool" where
  "answered r = (case r of Inl e \<Rightarrow> False | Inr resp \<Rightarrow> True)"

definition succeeded :: "error + response \<Rightarrow> bool" where
  "succeeded r = (case r of Inl e \<Rightarrow> False | Inr resp \<Rightarrow> status_code resp = 200)"

definition extracted :: "error + response \<Rightarrow> error + json list" where
  "extracted r =
     (case r of
        Inl e \<Rightarrow> Inl e
      | Inr resp \<Rightarrow>
          (case json_body resp of
             None \<Rightarrow> Inl JSONDecodeError
           | Some payload \<Rightarrow> get_elevation_from_request payload))"

definition elevations_of :: "error + response \<Rightarrow> json list" where
  "elevations_of r = (case extracted r of Inl e \<Rightarrow> [] | Inr es \<Rightarrow> es)"

definition extractable :: "error + response \<Rightarrow> bool" where
  "extractable r = (case extracted r of Inl e \<Rightarrow> False | Inr es \<Rightarrow> True)"

text \<open>
  The numbers of a list of cells all of which are numbers. The request of a chunk
  succeeds when the reply has status 200 and its payload gives one number for each
  point of the chunk.
\<close>

fun numeric_column :: "json list \<Rightarrow> rat list option" where
  "numeric_column [] = Some []"
| "numeric_column (JNum v # cells) = map_option ((#) v) (numeric_column cells)"
| "numeric_column (_ # cells) = None"




section \<open>Scenarios\<close>

text \<open>
  A scripted service answers the requests with the replies of a script, in order,
  whatever the URI, and lets the call raise once the script is used up; its world is
  what is left of the script.
\<close>

definition scripted :: "(error + response) list http" where
  "scripted uri script =
     (case script of [] \<Rightarrow> (Inl RequestException, []) | r # rest \<Rightarrow> (r, rest))"

text \<open>
  A reply of status 200 with \<open>n\<close> results of elevation \<open>v\<close>, its payload, and a reply
  of another status.
\<close>

definition results_payload :: "nat \<Rightarrow> rat \<Rightarrow> json" where
  "results_payload n v = JObj [(''results'', JArr (replicate n (JObj [(''elevation'', JNum v)])))]"

definition success_reply :: "nat \<Rightarrow> rat \<Rightarrow> error + response" where
  "success_reply n v = Inr \<lparr>status_code = 200, json_body = Some (results_payload n v)\<rparr>"

definition failure_reply :: "int \<Rightarrow> error + response" where
  "failure_reply code = Inr \<lparr>status_code = code, json_body = None\<rparr>"

text \<open>
  An object of \<open>n\<close> points that all have the coordinates of the docstring of
  \<^verbatim>\<open>coords_string\<close> and the reference elevation \<open>ref\<close>.
\<close>

definition sample_coords :: "string \<times> string" where
  "sample_coords = (''-21.8303712'', ''-49.127649'')"

definition uniform_points :: "nat \<Rightarrow> rat \<Rightarrow> elevation" where
  "uniform_points n ref =
     \<lparr>locations = replicate n \<lparr>lat = fst sample_coords, lon = snd sample_coords, z = ref\<rparr>,
      api_key = ''KEY'',
      google_url = ''https://maps.googleapis.com/maps/api/elevation/json?locations=''\<rparr>"

text \<open>The request of a chunk, and a concurrent run that is never started.\<close>

definition chunk_uri :: "elevation \<Rightarrow> coords \<Rightarrow> string" where
  "chunk_uri self chunk = google_url self @ coords_string chunk @ ''&key='' @ api_key self"

definition no_fetch :: "'w fetch" where
  "no_fetch urls st = ([], st)"

text \<open>A concurrent run that ends with the given outcomes, one for each URL.\<close>

definition gathers :: "gathered list \<Rightarrow> 'w fetch" where
  "gathers outcomes urls st = (outcomes, st)"

text \<open>
  An arithmetic that does not round, for columns of numbers. It is not the library; it
  agrees with float64 wherever the float64 operations are exact.
\<close>

definition unrounded_mean :: "json list \<Rightarrow> error + float64" where
  "unrounded_mean cells =
     (case numeric_column cells of
        None \<Rightarrow> Inl TypeError
      | Some xs \<Rightarrow>
          if xs = [] then Inr NaN else Inr (Finite (sum_list xs / of_nat (length xs))))"

fun unrounded_minus :: "float64 \<Rightarrow> float64 \<Rightarrow> float64" where
  "unrounded_minus (Finite a) (Finite b) = Finite (a - b)"
| "unrounded_minus _ _ = NaN"

definition unrounded :: frame_lib where
  "unrounded = \<lparr>series_mean = unrounded_mean, float_minus = unrounded_minus\<rparr>"

section \<open>Slicing a list into batches\<close>



lemma py_range_pos:
  "0 < n \<Longrightarrow>
   py_range 0 (int len) (int n) = Inr (map (\<lambda>k. int k * int n) [0..<(len + n - 1) div n])"
proof -
  assume n: "0 < n"
  have "(int len - 0 + int n - 1) div int n = int ((len + n - 1) div n)"
    using n by (simp add: zdiv_int of_nat_diff)
  then show ?thesis using n by (simp add: py_range_def)
qed

lemma py_range_nonpos:
  "batch_size \<le> 0 \<Longrightarrow> 0 \<le> len \<Longrightarrow>
   py_range 0 len batch_size = (if batch_size = 0 then Inl ValueError_range_step else Inr [])"
proof -
  assume a: "batch_size \<le> 0" "0 \<le> len"
  have "(0 - len - batch_size - 1) div (- batch_size) \<le> 0" if "batch_size < 0"
  proof -
    have "0 - len - batch_size - 1 \<le> - batch_size - 1" using a by simp
    then have "(0 - len - batch_size - 1) div (- batch_size)
        \<le> (- batch_size - 1) div (- batch_size)"
      using that by (intro zdiv_mono1) simp_all
    also have "\<dots> = 0" using that by (intro div_pos_pos_trivial) simp_all
    finally show ?thesis .
  qed
  then show ?thesis using a by (auto simp: py_range_def)
qed

lemma slice_index_nat: "slice_index (int a) len = min a len"
  by (simp add: slice_index_def)

lemma py_slice_chunk:
  "py_slice xs (int k * int n) (min (int k * int n + int n) (int (length xs)))
     = take n (drop (k * n) xs)"
proof -
  have a: "int k * int n = int (k * n)" by simp
  have b: "min (int (k * n) + int n) (int (length xs)) = int (min (k * n + n) (length xs))"
    by (simp only: of_nat_min of_nat_add)
  have "py_slice xs (int (k * n)) (int (min (k * n + n) (length xs)))
      = take (min (k * n + n) (length xs) - min (k * n) (length xs))
          (drop (min (k * n) (length xs)) xs)"
    by (simp only: py_slice_def slice_index_nat Let_def) simp
  also have "\<dots> = take n (drop (k * n) xs)"
    by (cases "k * n \<le> length xs") (auto simp: min_def)
  finally show ?thesis by (simp only: a b)
qed


lemma batch_str_chunks:
  assumes "0 < n"
  shows "batch_coords_to_str self (int n) =
    Inr (map (\<lambda>k. coords_string (take n (drop (k * n) (coords_list self))))
           [0..<(length (coords_list self) + n - 1) div n])"
  using assms
  by (simp add: batch_coords_to_str_def py_range_pos py_slice_chunk o_def Let_def)


section \<open>Rendering\<close>

lemma replace_space_join:
  "replace_space (join ''|'' xs) = join ''|'' (map replace_space xs)"
  by (induction "''|''" xs rule: join.induct) (simp_all add: replace_space_def)

lemma coords_string_groups: "coords_string coords = join ''|'' (map point_group coords)"
proof -
  have "replace_space (fst it @ '', '' @ snd it) = point_group it" for it
    by (simp add: point_group_def replace_space_def)
  then show ?thesis
    by (simp add: coords_string_def replace_space_join o_def)
qed

lemma split_on_append_sep:
  "CHR ''|'' \<notin> set g \<Longrightarrow>
   split_on CHR ''|'' (g @ CHR ''|'' # rest) = g # split_on CHR ''|'' rest"
  by (induction g) auto

lemma split_on_no_sep: "CHR ''|'' \<notin> set g \<Longrightarrow> split_on CHR ''|'' g = [g]"
  by (induction g) auto

lemma split_on_join:
  "gs \<noteq> [] \<Longrightarrow> \<forall>g \<in> set gs. CHR ''|'' \<notin> set g \<Longrightarrow>
   split_on CHR ''|'' (join ''|'' gs) = gs"
proof (induction "''|''" gs rule: join.induct)
  case 1
  then show ?case by simp
next
  case (2 x)
  then show ?case by (simp add: split_on_no_sep)
next
  case (3 x y ys)
  then show ?case by (simp add: split_on_append_sep)
qed

lemma plain_no_bar: "plain s \<Longrightarrow> CHR ''|'' \<notin> set (replace_space s)"
  by (auto simp: plain_def replace_space_def list_all_iff)

lemma plain_no_ws: "plain s \<Longrightarrow> c \<in> set (replace_space s) \<Longrightarrow> \<not> whitespace c"
  by (auto simp: plain_def replace_space_def list_all_iff)

lemma set_join: "set (join sep xs) \<subseteq> set sep \<union> (\<Union>x \<in> set xs. set x)"
  by (induction sep xs rule: join.induct) auto

lemma set_join_map:
  "c \<in> set (join sep (map f xs)) \<Longrightarrow> c \<in> set sep \<or> (\<exists>x \<in> set xs. c \<in> set (f x))"
  using set_join [of sep "map f xs"] by auto

lemma group_no_bar:
  "plain (fst it) \<Longrightarrow> plain (snd it) \<Longrightarrow> CHR ''|'' \<notin> set (point_group it)"
  by (simp add: point_group_def plain_no_bar)

lemma group_no_ws:
  "plain (fst it) \<Longrightarrow> plain (snd it) \<Longrightarrow> c \<in> set (point_group it) \<Longrightarrow> \<not> whitespace c"
  by (auto simp: point_group_def dest: plain_no_ws) (simp add: whitespace_def)

lemma rendering_of_plain:
  assumes "list_all (\<lambda>it. plain (fst it) \<and> plain (snd it)) coords"
  shows "coords_string coords = join ''|'' (map point_group coords)
    \<and> split_on CHR ''|'' (coords_string coords) =
        (if coords = [] then [[]] else map point_group coords)
    \<and> list_all (\<lambda>c. \<not> whitespace c) (coords_string coords)"
proof -
  have p: "plain (fst it) \<and> plain (snd it)" if "it \<in> set coords" for it
    using assms that by (simp add: list_all_iff)
  have 1: "coords_string coords = join ''|'' (map point_group coords)"
    by (rule coords_string_groups)
  have 2: "split_on CHR ''|'' (coords_string coords) =
      (if coords = [] then [[]] else map point_group coords)"
  proof (cases "coords = []")
    case True
    then show ?thesis by (simp add: coords_string_def replace_space_def)
  next
    case False
    have "\<forall>g \<in> set (map point_group coords). CHR ''|'' \<notin> set g"
      using p by (auto simp: group_no_bar)
    with False show ?thesis by (simp add: 1 split_on_join)
  qed
  have 3: "\<not> whitespace c" if "c \<in> set (coords_string coords)" for c
  proof -
    from that set_join [of "''|''" "map point_group coords"]
    consider "c = CHR ''|''" | it where "it \<in> set coords" "c \<in> set (point_group it)"
      unfolding 1 by auto
    then show ?thesis
    proof cases
      case 1
      then show ?thesis by (simp add: whitespace_def)
    next
      case 2
      then show ?thesis using p group_no_ws by blast
    qed
  qed
  from 1 2 3 show ?thesis by (simp add: list_all_iff)
qed

lemma number_text_chars:
  "number_text s \<Longrightarrow> c \<in> set s \<Longrightarrow> c \<in> set ''0123456789+-.einfa''"
  by (simp add: number_text_def list_all_iff)

lemma number_text_plain: "number_text s \<Longrightarrow> plain s"
  unfolding plain_def list_all_iff
proof
  fix c assume "number_text s" "c \<in> set s"
  then have "c \<in> set ''0123456789+-.einfa''" by (rule number_text_chars)
  then show "c \<noteq> CHR ''|'' \<and> (c = CHR '' '' \<or> \<not> whitespace c)"
    by (auto simp: whitespace_def)
qed

lemma number_text_no_space: "number_text s \<Longrightarrow> replace_space s = s"
  unfolding replace_space_def
proof (rule filter_True)
  assume n: "number_text s"
  show "\<forall>c\<in>set s. c \<noteq> CHR '' ''"
  proof
    fix c assume "c \<in> set s"
    with n have "c \<in> set ''0123456789+-.einfa''" by (rule number_text_chars)
    then show "c \<noteq> CHR '' ''" by auto
  qed
qed

lemma number_group:
  "number_text (fst it) \<Longrightarrow> number_text (snd it) \<Longrightarrow> point_group it = fst it @ '','' @ snd it"
  by (simp add: point_group_def number_text_no_space)

section \<open>Extraction and the sequential loop\<close>

lemma elevation_items_objects:
  "list_all is_object items \<Longrightarrow> elevation_items items = Inr (map elevation_field items)"
proof (induction items)
  case Nil
  then show ?case by simp
next
  case (Cons item items)
  then show ?case by (cases item) simp_all
qed

lemma loop_step:
  "get_google_data_loop self http (item # c_strs) acc (w, issued) =
     (let uri = google_url self @ item @ ''&key='' @ api_key self;
          r = fst (http uri w); w' = snd (http uri w); st' = (w', issued @ [uri])
      in if \<not> answered r then (Inl (projl r), st')
         else if \<not> succeeded r then get_google_data_loop self http c_strs acc st'
         else case extracted r of
                Inl e \<Rightarrow> (Inl e, st')
              | Inr es \<Rightarrow> get_google_data_loop self http c_strs (acc @ es) st')"
  by (auto simp: make_request_def Let_def answered_def succeeded_def extracted_def
      split: prod.splits sum.splits option.splits)

lemma loop_usable:
  assumes "list_all (\<lambda>r. answered r \<and> (succeeded r \<longrightarrow> extractable r))
      (replies http (map (\<lambda>coords_str. google_url self @ coords_str @ ''&key='' @ api_key self)
         c_strs) w)"
  shows "get_google_data_loop self http c_strs acc (w, issued) =
    (Inr (acc @ concat (map elevations_of (filter succeeded
        (replies http (map (\<lambda>coords_str. google_url self @ coords_str @ ''&key='' @ api_key self)
           c_strs) w)))),
     (world_after http (map (\<lambda>coords_str. google_url self @ coords_str @ ''&key='' @ api_key self)
        c_strs) w,
      issued @ map (\<lambda>coords_str. google_url self @ coords_str @ ''&key='' @ api_key self) c_strs))"
  using assms
proof (induction c_strs arbitrary: acc w issued)
  case Nil
  then show ?case by simp
next
  case (Cons item c_strs)
  then show ?case
    by (simp add: loop_step Let_def extractable_def elevations_of_def
        del: get_google_data_loop.simps split: sum.splits)
qed

lemma generate_urls_Inr:
  "generate_urls self batch_size = Inr uris \<longleftrightarrow>
   (\<exists>c_strs. make_coords_strings_list self batch_size = Inr c_strs
      \<and> uris = map (\<lambda>coords_str. google_url self @ coords_str @ ''&key='' @ api_key self)
          c_strs)"
  by (auto simp: generate_urls_def split: sum.splits)

lemma fetch_usable:
  assumes "generate_urls self batch_size = Inr uris"
    and "list_all (\<lambda>r. answered r \<and> (succeeded r \<longrightarrow> extractable r)) (replies http uris w)"
  shows "get_google_data self http batch_size (w, issued) =
    (Inr (concat (map elevations_of (filter succeeded (replies http uris w)))),
     (world_after http uris w, issued @ uris))"
proof -
  from assms(1) obtain c_strs
    where c: "make_coords_strings_list self batch_size = Inr c_strs"
      and u: "uris = map (\<lambda>coords_str. google_url self @ coords_str @ ''&key='' @ api_key self)
          c_strs"
    by (auto simp: generate_urls_Inr)
  from assms(2) show ?thesis
    unfolding u by (simp add: get_google_data_def c loop_usable)
qed






section \<open>The scenarios\<close>

lemma coords_list_uniform: "coords_list (uniform_points n ref) = replicate n sample_coords"
  by (simp add: coords_list_def uniform_points_def)


lemma upt_5: "[0..<5::nat] = [0, 1, 2, 3, 4]"
  by code_simp




lemma urls_uniform_5:
  "generate_urls (uniform_points 5 ref) 1 =
     Inr (replicate 5 (chunk_uri (uniform_points 5 ref) [sample_coords]))"
  using batch_str_chunks [of 1 "uniform_points 5 ref"]
  by (simp add: generate_urls_def make_coords_strings_list_def coords_list_uniform upt_5
      chunk_uri_def eval_nat_numeral)

lemma extracted_success: "extracted (success_reply n v) = Inr (replicate n (JNum v))"
proof -
  have "list_all is_object (replicate n (JObj [(''elevation'', JNum v)]))"
    by (simp add: list_all_iff)
  from elevation_items_objects [OF this] show ?thesis
    by (simp add: extracted_def success_reply_def results_payload_def dict_get_def)
qed

lemma succeeded_replies:
  "succeeded (success_reply n v)" "answered (success_reply n v)"
  "extractable (success_reply n v)" "elevations_of (success_reply n v) = replicate n (JNum v)"
  "answered (failure_reply code)" "succeeded (failure_reply code) \<longleftrightarrow> code = 200"
  by (simp_all add: succeeded_def answered_def extractable_def elevations_of_def
      extracted_success)
     (simp_all add: success_reply_def failure_reply_def)







lemma replies_scripted_5:
  "replies scripted (replicate 5 uri) [r1, r2, r3, r4, r5] = [r1, r2, r3, r4, r5]"
  "world_after scripted (replicate 5 uri) [r1, r2, r3, r4, r5] = []"
  by (simp_all add: scripted_def eval_nat_numeral)

lemma fetch_one_of_five_fails:
  "get_google_data (uniform_points 5 ref) scripted 1
     ([success_reply 1 4, success_reply 1 4, failure_reply 500, success_reply 1 4,
       success_reply 1 4], []) =
   (Inr [JNum 4, JNum 4, JNum 4, JNum 4],
    ([], replicate 5 (chunk_uri (uniform_points 5 ref) [sample_coords])))"
  using fetch_usable [OF urls_uniform_5, where http = scripted and issued = "[]"
      and w = "[success_reply 1 4, success_reply 1 4, failure_reply 500, success_reply 1 4,
        success_reply 1 4]"]
  by (simp add: replies_scripted_5 succeeded_replies)


section \<open>The claims\<close>

subsection \<open>C1: every chunk succeeds\<close>




subsection \<open>C2: the batcher partitions the points\<close>



subsection \<open>C3: the order of the gathered outcomes\<close>

text \<open>
  Claim C3 is about the order in which \<^verbatim>\<open>asyncio.gather\<close> hands back the outcomes
  of calls that complete in any order. \<^verbatim>\<open>fetch_data\<close> only builds the task list in
  the order of the URLs and returns what \<^verbatim>\<open>gather\<close> returns; the concurrent run is a
  parameter of this development, so the claim has no statement here.
\<close>

subsection \<open>C4: mixed outcomes of the concurrent run\<close>

text \<open>
  Claim C4 says that the caller of the concurrent run handles a list of mixed outcomes
  without failing as a whole. It does not: of five outcomes let the third be
  \<^verbatim>\<open>None\<close> (a reply of another status than 200) or an exception object;
  \<^verbatim>\<open>get_google_data_async\<close> passes it to \<^verbatim>\<open>get_elevation_from_request\<close>, which
  raises TypeError, and the four payloads are lost. The sequential sibling skips the
  same failed chunk and returns the four elevations.
\<close>

theorem async_mixed_outcomes_raise:
  "get_google_data_async (uniform_points 5 10)
     (gathers [Returned (results_payload 1 4), Returned (results_payload 1 4), Returned JNull,
               Returned (results_payload 1 4), Returned (results_payload 1 4)]) 1 ((), []) =
     (Inl TypeError, ((), []))
   \<and> get_google_data_async (uniform_points 5 10)
     (gathers [Returned (results_payload 1 4), Returned (results_payload 1 4),
               Raised RequestException,
               Returned (results_payload 1 4), Returned (results_payload 1 4)]) 1 ((), []) =
     (Inl TypeError, ((), []))
   \<and> get_google_data (uniform_points 5 10) scripted 1
       ([success_reply 1 4, success_reply 1 4, failure_reply 500, success_reply 1 4,
         success_reply 1 4], []) =
     (Inr [JNum 4, JNum 4, JNum 4, JNum 4],
      ([], replicate 5 (chunk_uri (uniform_points 5 10) [sample_coords])))"
proof -
  have "get_elevation_from_request (results_payload 1 4) = Inr [JNum 4]"
    by (simp add: results_payload_def dict_get_def)
  then show ?thesis
    using fetch_one_of_five_fails [of 10]
    by (simp add: get_google_data_async_def urls_uniform_5 gathers_def)
qed

subsection \<open>C5: a length mismatch is raised\<close>

text \<open>
  Claim C5. In either mode, when the fetcher hands back an elevation list whose length
  differs from the number of points (of which there is at least one, some chunk having
  been dropped), \<^verbatim>\<open>get_average_elevation\<close> returns no number: the assignment of the column
  raises the ValueError that names the length of the values and the length of the index,
  as the docstring says. The witness is a run of five chunks one of which is answered
  with status 500.
\<close>

theorem length_mismatch_raised:
  assumes "locations self \<noteq> []"
    and "(if \<not> asynchronous then get_google_data self http batch_size st
          else get_google_data_async self fetch_data batch_size st) = (Inr es, st')"
    and "length es \<noteq> length (locations self)"
  shows "get_average_elevation self lib http fetch_data batch_size asynchronous st =
    (Inl (Length_Mismatch (length es) (length (locations self))), st')"
  using assms by (simp add: get_average_elevation_def split: if_splits)

theorem length_mismatch_raised_witness:
  "locations (uniform_points 5 10) \<noteq> []
   \<and> get_google_data (uniform_points 5 10) scripted 1
       ([success_reply 1 4, success_reply 1 4, failure_reply 500, success_reply 1 4,
         success_reply 1 4], []) =
     (Inr [JNum 4, JNum 4, JNum 4, JNum 4],
      ([], replicate 5 (chunk_uri (uniform_points 5 10) [sample_coords])))
   \<and> get_average_elevation (uniform_points 5 10) unrounded scripted no_fetch 1 False
       ([success_reply 1 4, success_reply 1 4, failure_reply 500, success_reply 1 4,
         success_reply 1 4], []) =
     (Inl (Length_Mismatch 4 5),
      ([], replicate 5 (chunk_uri (uniform_points 5 10) [sample_coords])))"
proof -
  let ?self = "uniform_points 5 10"
  let ?st = "([success_reply 1 4, success_reply 1 4, failure_reply 500, success_reply 1 4,
         success_reply 1 4], [])"
  have h1: "locations ?self \<noteq> []" and n: "length (locations ?self) = 5"
    by (simp_all add: uniform_points_def)
  have h2: "(if \<not> False then get_google_data ?self scripted 1 ?st
          else get_google_data_async ?self no_fetch 1 ?st) =
     (Inr [JNum 4, JNum 4, JNum 4, JNum 4],
      ([], replicate 5 (chunk_uri ?self [sample_coords])))"
    using fetch_one_of_five_fails [of 10] by (simp only: not_False_eq_True if_True)
  have h3: "length [JNum 4, JNum 4, JNum 4, JNum 4] \<noteq> length (locations ?self)"
    by (simp add: n)
  from length_mismatch_raised [OF h1 h2 h3, of unrounded] h1 fetch_one_of_five_fails [of 10]
  show ?thesis by (simp add: n)
qed

subsection \<open>C6: the sequential strategy\<close>

text \<open>
  Claim C6. Let every request of the sequential run be answered with a response, and let
  every response of status 200 carry a payload from which the elevations can be
  extracted. Then \<^verbatim>\<open>get_google_data\<close> requests the URIs one after the other, in the
  order of the descriptors, each in the world the previous reply left; it raises nothing;
  and it returns the elevation arrays of the replies of status 200, concatenated in
  chunk order. A reply of any other status adds nothing.
\<close>

theorem sequential_fetch:
  assumes "generate_urls self batch_size = Inr uris"
    and "list_all (\<lambda>r. answered r \<and> (succeeded r \<longrightarrow> extractable r)) (replies http uris w)"
  shows "get_google_data self http batch_size (w, issued) =
    (Inr (concat (map elevations_of (filter succeeded (replies http uris w)))),
     (world_after http uris w, issued @ uris))"
  using assms by (rule fetch_usable)

theorem sequential_fetch_witness:
  "generate_urls (uniform_points 5 7) 1 =
     Inr (replicate 5 (chunk_uri (uniform_points 5 7) [sample_coords]))
   \<and> filter succeeded
       [success_reply 1 1, failure_reply 404, success_reply 1 3, failure_reply 500,
        success_reply 1 5] = [success_reply 1 1, success_reply 1 3, success_reply 1 5]
   \<and> get_google_data (uniform_points 5 7) scripted 1
       ([success_reply 1 1, failure_reply 404, success_reply 1 3, failure_reply 500,
         success_reply 1 5], []) =
     (Inr [JNum 1, JNum 3, JNum 5],
      ([], replicate 5 (chunk_uri (uniform_points 5 7) [sample_coords])))"
  using sequential_fetch [OF urls_uniform_5 [of 7], where http = scripted and issued = "[]"
      and w = "[success_reply 1 1, failure_reply 404, success_reply 1 3, failure_reply 500,
        success_reply 1 5]"]
  by (simp add: replies_scripted_5 succeeded_replies urls_uniform_5)

subsection \<open>C7: rendering a chunk\<close>

text \<open>
  Claim C7. The points of a chunk have numbers for coordinates, and \<^verbatim>\<open>coords_list\<close>
  renders them with \<^verbatim>\<open>str\<close>. For every chunk of such coordinate texts the rendered
  string is the groups \<^verbatim>\<open>{lat},{lon}\<close>, one for each point and in point order, joined by
  \<^verbatim>\<open>|\<close>; splitting it at \<^verbatim>\<open>|\<close> gives back exactly these groups (one empty group
  for the empty string of the empty chunk, which the batcher never yields); and every
  character of it is a character of a number, a comma or a \<^verbatim>\<open>|\<close>, none of them
  whitespace.
\<close>

theorem rendering_of_numbers:
  assumes "list_all (\<lambda>it. number_text (fst it) \<and> number_text (snd it)) coords"
  shows "coords_string coords = join ''|'' (map (\<lambda>it. fst it @ '','' @ snd it) coords)
    \<and> split_on CHR ''|'' (coords_string coords) =
        (if coords = [] then [[]] else map (\<lambda>it. fst it @ '','' @ snd it) coords)
    \<and> list_all (\<lambda>c. \<not> whitespace c) (coords_string coords)
    \<and> list_all (\<lambda>c. c \<in> set ''0123456789+-.einfa,|'') (coords_string coords)"
proof -
  have n: "number_text (fst it) \<and> number_text (snd it)" if "it \<in> set coords" for it
    using assms that by (simp add: list_all_iff)
  then have p: "list_all (\<lambda>it. plain (fst it) \<and> plain (snd it)) coords"
    by (simp add: list_all_iff number_text_plain)
  have g: "map point_group coords = map (\<lambda>it. fst it @ '','' @ snd it) coords"
    using n by (simp add: number_group)
  have 4: "c \<in> set ''0123456789+-.einfa,|''" if "c \<in> set (coords_string coords)" for c
  proof -
    from that have "c \<in> set (join ''|'' (map (\<lambda>it. fst it @ '','' @ snd it) coords))"
      unfolding coords_string_groups g .
    from set_join_map [OF this]
    consider "c = CHR ''|''" | it where "it \<in> set coords" "c \<in> set (fst it @ '','' @ snd it)"
      by auto
    then show ?thesis
    proof cases
      case 1
      then show ?thesis by simp
    next
      case 2
      then consider "c \<in> set (fst it)" | "c = CHR '',''" | "c \<in> set (snd it)" by auto
      then show ?thesis
      proof cases
        case 1
        with n [OF 2(1)] have "c \<in> set ''0123456789+-.einfa''"
          by (blast intro: number_text_chars)
        then show ?thesis by auto
      next
        case 2
        then show ?thesis by simp
      next
        case 3
        with n [OF 2(1)] have "c \<in> set ''0123456789+-.einfa''"
          by (blast intro: number_text_chars)
        then show ?thesis by auto
      qed
    qed
  qed
  from rendering_of_plain [OF p]
  have 1: "coords_string coords = join ''|'' (map (\<lambda>it. fst it @ '','' @ snd it) coords)"
    and 2: "split_on CHR ''|'' (coords_string coords) =
        (if coords = [] then [[]] else map (\<lambda>it. fst it @ '','' @ snd it) coords)"
    and 3: "list_all (\<lambda>c. \<not> whitespace c) (coords_string coords)"
    unfolding g by blast+
  have "list_all (\<lambda>c. c \<in> set ''0123456789+-.einfa,|'') (coords_string coords)"
    unfolding list_all_iff using 4 by blast
  with 1 2 3 show ?thesis by blast
qed

theorem rendering_of_numbers_witness:
  "list_all (\<lambda>it. number_text (fst it) \<and> number_text (snd it))
     [(''-21.8303712'', ''-49.127649''), (''-21.8302281'', ''-49.1275669''),
      (''-21.8300812'', ''-49.1274859'')]
   \<and> coords_string
       [(''-21.8303712'', ''-49.127649''), (''-21.8302281'', ''-49.1275669''),
        (''-21.8300812'', ''-49.1274859'')] =
     ''-21.8303712,-49.127649|-21.8302281,-49.1275669|-21.8300812,-49.1274859''
   \<and> split_on CHR ''|''
       (coords_string
         [(''-21.8303712'', ''-49.127649''), (''-21.8302281'', ''-49.1275669''),
          (''-21.8300812'', ''-49.1274859'')]) =
     [''-21.8303712,-49.127649'', ''-21.8302281,-49.1275669'', ''-21.8300812,-49.1274859'']"
proof -
  let ?coords = "[(''-21.8303712'', ''-49.127649''), (''-21.8302281'', ''-49.1275669''),
      (''-21.8300812'', ''-49.1274859'')]"
  have h: "list_all (\<lambda>it. number_text (fst it) \<and> number_text (snd it)) ?coords"
    by (simp add: number_text_def)
  from rendering_of_numbers [OF h] h show ?thesis
    by simp
qed

subsection \<open>C8: batch sizes below 1\<close>

text \<open>
  Claim C8 as stated fails for negative batch sizes: \<^verbatim>\<open>range(0, ln, -1)\<close> is empty, so
  the batcher yields nothing and raises nothing, and the sequential fetcher returns the
  empty list without a request.
\<close>

theorem negative_batch_size_counterexample:
  "batch_coords_to_str (uniform_points 5 10) (- 1) = Inr []
   \<and> get_google_data (uniform_points 5 10) scripted (- 1) ([success_reply 5 4], []) =
       (Inr [], ([success_reply 5 4], []))"
  by (simp add: get_google_data_def make_coords_strings_list_def batch_coords_to_str_def
      Let_def py_range_nonpos)

text \<open>
  Claim C8, amended. For batch size 0 the batcher raises the ValueError of \<^verbatim>\<open>range\<close>
  as soon as it is consumed, before any request, and so do the fetcher and
  \<^verbatim>\<open>get_average_elevation\<close> in both modes. For a negative batch size nothing is raised
  by the batcher: it yields no chunk, the sequential fetcher issues no request and
  returns the empty list, and for a point sequence that is not empty
  \<^verbatim>\<open>get_average_elevation\<close> then raises the length mismatch of 0 values against the
  number of points.
\<close>

theorem nonpositive_batch_size:
  assumes "batch_size \<le> 0"
  shows "batch_coords_to_str self batch_size =
      (if batch_size = 0 then Inl ValueError_range_step else Inr [])
    \<and> get_google_data self http batch_size st =
      (if batch_size = 0 then Inl ValueError_range_step else Inr [], st)
    \<and> (batch_size = 0 \<longrightarrow>
        get_average_elevation self lib http fetch_data batch_size asynchronous st =
          (Inl ValueError_range_step, st))
    \<and> (batch_size < 0 \<longrightarrow> locations self \<noteq> [] \<longrightarrow>
        get_average_elevation self lib http fetch_data batch_size False st =
          (Inl (Length_Mismatch 0 (length (locations self))), st))"
proof -
  have b: "batch_coords_to_str self batch_size =
      (if batch_size = 0 then Inl ValueError_range_step else Inr [])"
    using assms by (simp add: batch_coords_to_str_def Let_def py_range_nonpos)
  have g: "get_google_data self http batch_size st =
      (if batch_size = 0 then Inl ValueError_range_step else Inr [], st)"
    by (simp add: get_google_data_def make_coords_strings_list_def b)
  have a: "get_google_data_async self fetch_data batch_size st = (Inl ValueError_range_step, st)"
    if "batch_size = 0"
    using that b by (simp add: get_google_data_async_def generate_urls_def
        make_coords_strings_list_def)
  have z: "get_average_elevation self lib http fetch_data batch_size asynchronous st =
          (Inl ValueError_range_step, st)" if "batch_size = 0"
    using that a g by (simp add: get_average_elevation_def)
  have n: "get_average_elevation self lib http fetch_data batch_size False st =
          (Inl (Length_Mismatch 0 (length (locations self))), st)"
    if "batch_size < 0" "locations self \<noteq> []"
    using that g by (simp add: get_average_elevation_def)
  from b g z n show ?thesis by simp
qed

theorem nonpositive_batch_size_witness:
  "(- 3 :: int) \<le> 0
   \<and> batch_coords_to_str (uniform_points 5 10) (- 3) = Inr []
   \<and> get_google_data (uniform_points 5 10) scripted (- 3) ([success_reply 5 4], []) =
       (Inr [], ([success_reply 5 4], []))
   \<and> get_average_elevation (uniform_points 5 10) unrounded scripted no_fetch (- 3) False
       ([success_reply 5 4], []) = (Inl (Length_Mismatch 0 5), ([success_reply 5 4], []))
   \<and> batch_coords_to_str (uniform_points 5 10) 0 = Inl ValueError_range_step
   \<and> get_average_elevation (uniform_points 5 10) unrounded scripted no_fetch 0 False
       ([success_reply 5 4], []) = (Inl ValueError_range_step, ([success_reply 5 4], []))"
proof -
  have "locations (uniform_points 5 10) \<noteq> []" "length (locations (uniform_points 5 10)) = 5"
    by (simp_all add: uniform_points_def)
  then show ?thesis
    using nonpositive_batch_size [where batch_size = "- 3" and self = "uniform_points 5 10"
        and http = scripted and st = "([success_reply 5 4], [])" and lib = unrounded
        and fetch_data = no_fetch and asynchronous = False]
      nonpositive_batch_size [where batch_size = 0 and self = "uniform_points 5 10"
        and http = scripted and st = "([success_reply 5 4], [])" and lib = unrounded
        and fetch_data = no_fetch and asynchronous = False]
    by simp
qed

subsection \<open>C9: extraction from a payload\<close>

text \<open>
  Claim C9 as stated fails when an element of the list is not an object: it has no
  \<^verbatim>\<open>get\<close>, and the extraction raises AttributeError.
\<close>

theorem extraction_counterexample:
  "get_elevation_from_request (JObj [(''results'', JArr [JNum 1])]) = Inl AttributeError"
  by simp

text \<open>
  Claim C9, amended. For every payload whose \<^verbatim>\<open>"results"\<close> field is a list of objects,
  \<^verbatim>\<open>get_elevation_from_request\<close> returns a list of the same length whose i-th element
  is the \<^verbatim>\<open>"elevation"\<close> field of the i-th element of the results, \<^verbatim>\<open>None\<close> when the
  field is absent.
\<close>

theorem extraction_of_object_results:
  assumes "map_of kvs ''results'' = Some (JArr items)"
    and "list_all is_object items"
  shows "get_elevation_from_request (JObj kvs) = Inr (map elevation_field items)
    \<and> length (map elevation_field items) = length items
    \<and> (\<forall>i < length items. map elevation_field items ! i = elevation_field (items ! i))"
  using assms by (simp add: elevation_items_objects)

theorem extraction_of_object_results_witness:
  "map_of [(''status'', JStr ''OK''),
           (''results'', JArr [JObj [(''elevation'', JNum (9 / 2))],
                               JObj [(''resolution'', JNum 1)]])] ''results''
     = Some (JArr [JObj [(''elevation'', JNum (9 / 2))], JObj [(''resolution'', JNum 1)]])
   \<and> list_all is_object [JObj [(''elevation'', JNum (9 / 2))], JObj [(''resolution'', JNum 1)]]
   \<and> get_elevation_from_request
       (JObj [(''status'', JStr ''OK''),
              (''results'', JArr [JObj [(''elevation'', JNum (9 / 2))],
                                  JObj [(''resolution'', JNum 1)]])])
     = Inr [JNum (9 / 2), JNull]"
  using extraction_of_object_results [of
      "[(''status'', JStr ''OK''),
        (''results'', JArr [JObj [(''elevation'', JNum (9 / 2))],
                            JObj [(''resolution'', JNum 1)]])]"
      "[JObj [(''elevation'', JNum (9 / 2))], JObj [(''resolution'', JNum 1)]]"]
  by (simp add: dict_get_def)

subsection \<open>C10: no points\<close>

text \<open>
  Claim C10. For an empty point sequence and every batch size of at least 1, both
  generators yield nothing, and \<^verbatim>\<open>get_google_data\<close> returns the empty list and leaves
  the world and the list of issued requests as they were.
\<close>

theorem empty_point_sequence:
  assumes "locations self = []" and "1 \<le> batch_size"
  shows "create_batch_for_polyline self batch_size = Inr []
    \<and> batch_coords_to_str self batch_size = Inr []
    \<and> get_google_data self http batch_size (w, issued) = (Inr [], (w, issued))"
  using assms
  by (simp add: get_google_data_def make_coords_strings_list_def batch_coords_to_str_def
      create_batch_for_polyline_def coords_list_def Let_def py_range_def)

theorem empty_point_sequence_witness:
  "locations (uniform_points 0 10) = []
   \<and> 1 \<le> (300::int)
   \<and> batch_coords_to_str (uniform_points 0 10) 300 = Inr []
   \<and> get_google_data (uniform_points 0 10) scripted 300 ([success_reply 1 4], []) =
       (Inr [], ([success_reply 1 4], []))"
proof -
  have h: "locations (uniform_points 0 10) = []" by (simp add: uniform_points_def)
  from empty_point_sequence [OF h, of 300 scripted "[success_reply 1 4]" "[]"] h
  show ?thesis by simp
qed

end
